theory Spec2Isabelle
  imports Main "HOL-Library.Word"
begin

section \<open>The logger client of Billes/go-logger-client\<close>

text \<open>
  The package \<^verbatim>\<open>logger\<close> keeps one process-wide configuration (\<^verbatim>\<open>var logr *logger\<close>),
  builds a \<^verbatim>\<open>logEntry\<close> for every call of an emitter, posts its JSON encoding to the
  configured host and prints a line on standard output when the post fails or the
  configuration asks for local lines as well.

  The repository holds the package in two states: \<^verbatim>\<open>src/unnamed/part_000\<close> and
  \<^verbatim>\<open>src/logger.go\<close>. They agree on every function but two. In \<^verbatim>\<open>part_000\<close>,
  \<^verbatim>\<open>Init\<close> ends with a warning when the host is empty and \<^verbatim>\<open>postLog\<close> prints a warning
  line when the round trip fails; \<^verbatim>\<open>logger.go\<close> has neither. The functions below take
  the file they are read from as their first argument, and only \<open>Init\<close> and
  \<open>postLog\<close> look at it.
\<close>

datatype source = part_000 | logger_go

subsection \<open>Data\<close>

text \<open>\<^verbatim>\<open>type severity string\<close> with its five constants; the type is unexported, so that
  no other value reaches the package.\<close>

datatype severity =
  criticalSeverity | debugSeverity | errorSeverity | infoSeverity | warningSeverity

text \<open>
  The \<^verbatim>\<open>data interface{}\<close> of an entry is any Go value. The package hands it to
  \<^verbatim>\<open>json.Marshal\<close> and never looks at it otherwise, so the model keeps the shapes
  that decide whether \<^verbatim>\<open>encoding/json\<close> accepts the value: \<^verbatim>\<open>nil\<close>, booleans, integers,
  strings and slices are encoded, a channel or a function value is refused
  (\<^verbatim>\<open>json.UnsupportedTypeError\<close>), also inside a slice. Of a value of any other type
  (a float, a map, a struct, a pointer) the model keeps whether \<^verbatim>\<open>encoding/json\<close>
  accepts it.
\<close>

datatype govalue =
  GoNil | GoBool bool | GoInt int | GoString string | GoSlice "govalue list"
  | GoChan | GoFunc | GoOther bool

fun encodable :: "govalue \<Rightarrow> bool" where
  "encodable (GoSlice vs) = list_all encodable vs"
| "encodable GoChan = False"
| "encodable GoFunc = False"
| "encodable (GoOther accepted) = accepted"
| "encodable _ = True"

record logEntry =
  Severity :: severity
  Tags :: "string list"
  Message :: string
  Data :: govalue

record Options =
  Host :: string
  System :: string
  Token :: string
  Local :: bool
  Timeout :: "64 word" \<comment> \<open>Go \<^verbatim>\<open>int\<close> on a 64-bit target, read as signed\<close>

record logger =
  options :: Options

text \<open>Go errors: the ones the package makes with \<^verbatim>\<open>errors.New\<close>, the one of
  \<^verbatim>\<open>json.Marshal\<close>, and the ones \<^verbatim>\<open>fasthttp\<close> returns for a failed round trip (a refused
  connection, a timeout), each with the text of its \<^verbatim>\<open>Error()\<close> method.\<close>

datatype error = errors_New string | UnsupportedTypeError | TransportError string

fun error_Error :: "error \<Rightarrow> string" where
  "error_Error (errors_New s) = s"
| "error_Error UnsupportedTypeError = ''json: unsupported type''"
| "error_Error (TransportError s) = s"

text \<open>The bytes \<^verbatim>\<open>json.Marshal\<close> returns for an entry stand for the entry they encode.\<close>

datatype bytes = JSON logEntry

definition json_Marshal :: "logEntry \<Rightarrow> error + bytes" where
  "json_Marshal e = (if encodable (Data e) then Inr (JSON e) else Inl UnsupportedTypeError)"

text \<open>The request \<^verbatim>\<open>postLog\<close> builds, with the duration it passes to
  \<^verbatim>\<open>client.DoTimeout\<close> (\<^verbatim>\<open>time.Duration\<close> is an \<^verbatim>\<open>int64\<close> of nanoseconds).\<close>

record request =
  uri :: string
  httpMethod :: string
  contentType :: string
  header :: "(string \<times> string) list"
  body :: bytes
  within :: "64 word"

text \<open>The line \<^verbatim>\<open>writeLocalLog\<close> prints: \<^verbatim>\<open>"%v %v - %v - %v\n"\<close> of the time stamp, the
  severity, the tags and the message. The time stamp is the wall clock's and is left
  out; the data of the entry is not printed.\<close>

record line =
  lineSeverity :: severity
  lineTags :: "string list"
  lineMessage :: string

text \<open>
  What a run of the package can touch: the package variable \<^verbatim>\<open>logr\<close> (\<open>None\<close> is
  \<^verbatim>\<open>nil\<close>), the lines printed on standard output, the lines the standard logger
  printed on standard error, and the requests handed to the HTTP client, each list
  oldest first.
\<close>

record world =
  logr :: "logger option"
  stdout :: "line list"
  stderr :: "string list"
  sent :: "request list"

text \<open>The network is the environment's: it answers a request, given the requests sent
  before it, with \<^verbatim>\<open>nil\<close> or with the error of the failed round trip.\<close>

type_synonym network = "request list \<Rightarrow> request \<Rightarrow> error option"

text \<open>A call returns a value, or ends the process with \<^verbatim>\<open>os.Exit\<close>, or panics on a
  \<^verbatim>\<open>nil\<close> pointer; each with the world it leaves.\<close>

datatype 'a run = Return 'a world | Exit int world | Panic world

subsection \<open>Constants\<close>

definition timeout :: "64 word" where
  "timeout = 10"

definition logTags :: "string list" where
  "logTags = [''logging'']"

definition time_Second :: "64 word" where
  "time_Second = 1000000000"

text \<open>The message \<^verbatim>\<open>log\<close> reports an entry it cannot encode with.\<close>

definition couldNotPost :: string where
  "couldNotPost = ''Could not post to log due to \"data\" wasn't encodable - See local log''"

subsection \<open>Functions\<close>

text \<open>What \<^verbatim>\<open>fmt.Printf\<close> prints of an entry in \<^verbatim>\<open>writeLocalLog\<close>.\<close>

definition printed :: "logEntry \<Rightarrow> line" where
  "printed e = \<lparr>lineSeverity = Severity e, lineTags = Tags e, lineMessage = Message e\<rparr>"

definition writeLocalLog :: "logEntry \<Rightarrow> world \<Rightarrow> world" where
  "writeLocalLog e w = w\<lparr>stdout := stdout w @ [printed e]\<rparr>"

text \<open>\<^verbatim>\<open>coreLog.Fatal\<close> prints its message through the standard logger and calls
  \<^verbatim>\<open>os.Exit(1)\<close>.\<close>

definition newEntry ::
  "severity \<Rightarrow> string list \<Rightarrow> string \<Rightarrow> govalue \<Rightarrow> world \<Rightarrow> logEntry run" where
  "newEntry sev tags message data w =
     (case logr w of
        None \<Rightarrow> Exit 1 (w\<lparr>stderr := stderr w @ [''You need to instantiate the logger first'']\<rparr>)
      | Some l \<Rightarrow>
          Return \<lparr>Severity = sev, Tags = [System (options l)] @ tags,
                  Message = message, Data = data\<rparr> w)"

text \<open>The request of \<^verbatim>\<open>postLog\<close>: the URI, the method, the content type, the token header
  and the body it sets, and the duration \<^verbatim>\<open>time.Duration(logr.options.Timeout)*time.Second\<close>,
  a product of \<^verbatim>\<open>int64\<close> values that wraps around.\<close>

definition newRequest :: "Options \<Rightarrow> bytes \<Rightarrow> request" where
  "newRequest opts b =
     \<lparr>uri = Host opts, httpMethod = ''POST'', contentType = ''application/json'',
      header = [(''billes-log-token'', Token opts)],
      body = b, within = Timeout opts * time_Second\<rparr>"

text \<open>\<^verbatim>\<open>postLog\<close>. The last \<^verbatim>\<open>if\<close> is in \<^verbatim>\<open>part_000\<close> only.\<close>

definition postLog :: "source \<Rightarrow> network \<Rightarrow> bytes \<Rightarrow> world \<Rightarrow> error option run" where
  "postLog src net b w =
     (case logr w of
        None \<Rightarrow> Panic w
      | Some l \<Rightarrow>
          if Host (options l) = [] then Return (Some (errors_New ''Host is not set'')) w
          else
            let req = newRequest (options l) b;
                err = net (sent w) req;
                w1 = w\<lparr>sent := sent w @ [req]\<rparr>
            in case src of
                 logger_go \<Rightarrow> Return err w1
               | part_000 \<Rightarrow>
                   (case err of
                      None \<Rightarrow> Return err w1
                    | Some er \<Rightarrow>
                        if Host (options l) \<noteq> [] then
                          (case newEntry warningSeverity logTags
                                  (''Failed while sending log entry request: '' @ error_Error er)
                                  GoNil w1 of
                             Return entry w2 \<Rightarrow> Return err (writeLocalLog entry w2)
                           | Exit s w2 \<Rightarrow> Exit s w2
                           | Panic w2 \<Rightarrow> Panic w2)
                        else Return err w1))"

text \<open>\<^verbatim>\<open>log\<close> and \<^verbatim>\<open>Error\<close> call each other: \<^verbatim>\<open>log\<close> reports an entry it cannot encode
  through \<^verbatim>\<open>Error\<close>, with the data \<^verbatim>\<open>""\<close>.\<close>

function log :: "source \<Rightarrow> network \<Rightarrow> logEntry \<Rightarrow> world \<Rightarrow> error option run"
  and Error :: "source \<Rightarrow> network \<Rightarrow> string list \<Rightarrow> string \<Rightarrow> govalue \<Rightarrow> world \<Rightarrow> unit run"
where
  "log src net e w =
     (case json_Marshal e of
        Inl err \<Rightarrow>
          (case Error src net logTags couldNotPost (GoString []) (writeLocalLog e w) of
             Return u w1 \<Rightarrow> Return None w1
           | Exit s w1 \<Rightarrow> Exit s w1
           | Panic w1 \<Rightarrow> Panic w1)
      | Inr b \<Rightarrow>
          (case postLog src net b w of
             Return err w1 \<Rightarrow>
               if err \<noteq> None then Return err (writeLocalLog e w1)
               else (case logr w1 of
                       None \<Rightarrow> Panic w1
                     | Some l \<Rightarrow>
                         if Local (options l) then Return err (writeLocalLog e w1)
                         else Return err w1)
           | Exit s w1 \<Rightarrow> Exit s w1
           | Panic w1 \<Rightarrow> Panic w1))"
| "Error src net tags message data w =
     (case newEntry errorSeverity tags message data w of
        Return e w1 \<Rightarrow>
          (case log src net e w1 of
             Return err w2 \<Rightarrow> Return () w2
           | Exit s w2 \<Rightarrow> Exit s w2
           | Panic w2 \<Rightarrow> Panic w2)
      | Exit s w1 \<Rightarrow> Exit s w1
      | Panic w1 \<Rightarrow> Panic w1)"
  by pat_completeness auto
termination
  by (relation "measure (\<lambda>x. case x of
          Inl (src, net, e, w) \<Rightarrow> (if encodable (Data e) then 0 else 2)
        | Inr (src, net, tags, message, data, w) \<Rightarrow> (if encodable data then 1 else 3))")
     (auto simp: json_Marshal_def newEntry_def split: if_splits option.splits)

declare log.simps [simp del] Error.simps [simp del]

text \<open>The other emitters.\<close>

definition Critical ::
  "source \<Rightarrow> network \<Rightarrow> string list \<Rightarrow> string \<Rightarrow> govalue \<Rightarrow> world \<Rightarrow> unit run" where
  "Critical src net tags message data w =
     (case newEntry criticalSeverity tags message data w of
        Return e w1 \<Rightarrow>
          (case log src net e w1 of
             Return err w2 \<Rightarrow> Return () w2
           | Exit s w2 \<Rightarrow> Exit s w2
           | Panic w2 \<Rightarrow> Panic w2)
      | Exit s w1 \<Rightarrow> Exit s w1
      | Panic w1 \<Rightarrow> Panic w1)"

definition Debug ::
  "source \<Rightarrow> network \<Rightarrow> string list \<Rightarrow> string \<Rightarrow> govalue \<Rightarrow> world \<Rightarrow> unit run" where
  "Debug src net tags message data w =
     (case newEntry debugSeverity tags message data w of
        Return e w1 \<Rightarrow>
          (case log src net e w1 of
             Return err w2 \<Rightarrow> Return () w2
           | Exit s w2 \<Rightarrow> Exit s w2
           | Panic w2 \<Rightarrow> Panic w2)
      | Exit s w1 \<Rightarrow> Exit s w1
      | Panic w1 \<Rightarrow> Panic w1)"

definition Info ::
  "source \<Rightarrow> network \<Rightarrow> string list \<Rightarrow> string \<Rightarrow> govalue \<Rightarrow> world \<Rightarrow> unit run" where
  "Info src net tags message data w =
     (case newEntry infoSeverity tags message data w of
        Return e w1 \<Rightarrow>
          (case log src net e w1 of
             Return err w2 \<Rightarrow> Return () w2
           | Exit s w2 \<Rightarrow> Exit s w2
           | Panic w2 \<Rightarrow> Panic w2)
      | Exit s w1 \<Rightarrow> Exit s w1
      | Panic w1 \<Rightarrow> Panic w1)"

definition Warning ::
  "source \<Rightarrow> network \<Rightarrow> string list \<Rightarrow> string \<Rightarrow> govalue \<Rightarrow> world \<Rightarrow> unit run" where
  "Warning src net tags message data w =
     (case newEntry warningSeverity tags message data w of
        Return e w1 \<Rightarrow>
          (case log src net e w1 of
             Return err w2 \<Rightarrow> Return () w2
           | Exit s w2 \<Rightarrow> Exit s w2
           | Panic w2 \<Rightarrow> Panic w2)
      | Exit s w1 \<Rightarrow> Exit s w1
      | Panic w1 \<Rightarrow> Panic w1)"

text \<open>\<^verbatim>\<open>Fatal\<close> never returns: every path ends in \<^verbatim>\<open>os.Exit(1)\<close>, unless the process
  ended before.\<close>

definition Fatal ::
  "source \<Rightarrow> network \<Rightarrow> string list \<Rightarrow> string \<Rightarrow> govalue \<Rightarrow> world \<Rightarrow> unit run" where
  "Fatal src net tags message data w =
     (case newEntry criticalSeverity tags message data w of
        Return e w1 \<Rightarrow>
          (case log src net e w1 of
             Return err w2 \<Rightarrow>
               if err = None then
                 (case logr w2 of
                    None \<Rightarrow> Panic w2
                  | Some l \<Rightarrow>
                      if \<not> Local (options l) then Exit 1 (writeLocalLog e w2)
                      else Exit 1 w2)
               else Exit 1 w2
           | Exit s w2 \<Rightarrow> Exit s w2
           | Panic w2 \<Rightarrow> Panic w2)
      | Exit s w1 \<Rightarrow> Exit s w1
      | Panic w1 \<Rightarrow> Panic w1)"

text \<open>\<^verbatim>\<open>Init\<close>. The argument is passed by value: the default of the timeout is set in
  the copy, before the test of \<^verbatim>\<open>logr\<close>. The warning for an empty host is in
  \<^verbatim>\<open>part_000\<close> only.\<close>

definition Init :: "source \<Rightarrow> network \<Rightarrow> Options \<Rightarrow> world \<Rightarrow> error option run" where
  "Init src net opts w =
     (let opts1 = (if Timeout opts <s 1 then opts\<lparr>Timeout := timeout\<rparr> else opts)
      in case logr w of
           Some l \<Rightarrow>
             (let err = errors_New ''Trying to instantiate an already instantiated logger''
              in case Error src net logTags (error_Error err) GoNil w of
                   Return u w1 \<Rightarrow> Return (Some err) w1
                 | Exit s w1 \<Rightarrow> Exit s w1
                 | Panic w1 \<Rightarrow> Panic w1)
         | None \<Rightarrow>
             (let w1 = w\<lparr>logr := Some \<lparr>options = opts1\<rparr>\<rparr>
              in case src of
                   logger_go \<Rightarrow> Return None w1
                 | part_000 \<Rightarrow>
                     if Host opts1 = [] then
                       (case Warning src net logTags ''Host is not set'' GoNil w1 of
                          Return u w2 \<Rightarrow> Return None w2
                        | Exit s w2 \<Rightarrow> Exit s w2
                        | Panic w2 \<Rightarrow> Panic w2)
                     else Return None w1))"

subsection \<open>Vocabulary of the properties\<close>

text \<open>The five emitters that return, by the severity they log with.\<close>

fun emitter ::
  "severity \<Rightarrow> source \<Rightarrow> network \<Rightarrow> string list \<Rightarrow> string \<Rightarrow> govalue \<Rightarrow> world \<Rightarrow> unit run" where
  "emitter criticalSeverity = Critical"
| "emitter debugSeverity = Debug"
| "emitter errorSeverity = Error"
| "emitter infoSeverity = Info"
| "emitter warningSeverity = Warning"

text \<open>A process that has just started, a network that delivers every request and one
  that times every request out, and the configuration of the specification's example.\<close>

definition world0 :: world where
  "world0 = \<lparr>logr = None, stdout = [], stderr = [], sent = []\<rparr>"

definition net_up :: network where
  "net_up sofar req = None"

definition net_down :: network where
  "net_down sofar req = Some (TransportError ''timeout'')"

definition svc :: Options where
  "svc = \<lparr>Host = [], System = ''svc'', Token = [], Local = False, Timeout = 10\<rparr>"

definition shop :: Options where
  "shop = \<lparr>Host = ''http://logbook/api'', System = ''shop'', Token = ''secret'',
           Local = False, Timeout = 10\<rparr>"

text \<open>The world of a process in which \<^verbatim>\<open>Init\<close> has stored a configuration and nothing
  else has happened.\<close>

definition started :: "Options \<Rightarrow> world" where
  "started opts = \<lparr>logr = Some \<lparr>options = opts\<rparr>, stdout = [], stderr = [], sent = []\<rparr>"

section \<open>Properties\<close>

subsection \<open>The building blocks, one path at a time\<close>

lemma newEntry_Some:
  "logr w = Some l \<Longrightarrow>
   newEntry sev tags message data w =
     Return \<lparr>Severity = sev, Tags = System (options l) # tags, Message = message, Data = data\<rparr> w"
  by (simp add: newEntry_def)

lemma newEntry_None:
  "logr w = None \<Longrightarrow>
   newEntry sev tags message data w =
     Exit 1 (w\<lparr>stderr := stderr w @ [''You need to instantiate the logger first'']\<rparr>)"
  by (simp add: newEntry_def)

lemma writeLocalLog_fields [simp]:
  "logr (writeLocalLog e w) = logr w"
  "stdout (writeLocalLog e w) = stdout w @ [printed e]"
  "stderr (writeLocalLog e w) = stderr w"
  "sent (writeLocalLog e w) = sent w"
  by (simp_all add: writeLocalLog_def)

lemma started_fields [simp]:
  "logr (started opts) = Some \<lparr>options = opts\<rparr>"
  "stdout (started opts) = []"
  "stderr (started opts) = []"
  "sent (started opts) = []"
  by (simp_all add: started_def)

lemma postLog_no_host:
  "logr w = Some l \<Longrightarrow> Host (options l) = [] \<Longrightarrow>
   postLog src net b w = Return (Some (errors_New ''Host is not set'')) w"
  by (simp add: postLog_def)

lemma postLog_delivered:
  "logr w = Some l \<Longrightarrow> Host (options l) \<noteq> [] \<Longrightarrow>
   net (sent w) (newRequest (options l) b) = None \<Longrightarrow>
   postLog src net b w = Return None (w\<lparr>sent := sent w @ [newRequest (options l) b]\<rparr>)"
  by (cases src) (simp_all add: postLog_def Let_def)

lemma postLog_failed_part_000:
  "logr w = Some l \<Longrightarrow> Host (options l) \<noteq> [] \<Longrightarrow>
   net (sent w) (newRequest (options l) b) = Some er \<Longrightarrow>
   postLog part_000 net b w =
     Return (Some er)
       (writeLocalLog
          \<lparr>Severity = warningSeverity, Tags = [System (options l), ''logging''],
           Message = ''Failed while sending log entry request: '' @ error_Error er,
           Data = GoNil\<rparr>
          (w\<lparr>sent := sent w @ [newRequest (options l) b]\<rparr>))"
  by (simp add: postLog_def Let_def newEntry_def logTags_def)

lemma postLog_failed_logger_go:
  "logr w = Some l \<Longrightarrow> Host (options l) \<noteq> [] \<Longrightarrow>
   net (sent w) (newRequest (options l) b) = Some er \<Longrightarrow>
   postLog logger_go net b w = Return (Some er) (w\<lparr>sent := sent w @ [newRequest (options l) b]\<rparr>)"
  by (simp add: postLog_def Let_def)

lemma log_encodable:
  "encodable (Data e) \<Longrightarrow>
   log src net e w =
     (case postLog src net (JSON e) w of
        Return err w1 \<Rightarrow>
          if err \<noteq> None then Return err (writeLocalLog e w1)
          else (case logr w1 of
                  None \<Rightarrow> Panic w1
                | Some l \<Rightarrow>
                    if Local (options l) then Return err (writeLocalLog e w1)
                    else Return err w1)
      | Exit s w1 \<Rightarrow> Exit s w1
      | Panic w1 \<Rightarrow> Panic w1)"
  by (subst log.simps) (simp add: json_Marshal_def)

lemma log_no_host:
  "logr w = Some l \<Longrightarrow> Host (options l) = [] \<Longrightarrow> encodable (Data e) \<Longrightarrow>
   log src net e w = Return (Some (errors_New ''Host is not set'')) (writeLocalLog e w)"
  by (simp add: log_encodable postLog_no_host)

lemma log_delivered:
  "logr w = Some l \<Longrightarrow> Host (options l) \<noteq> [] \<Longrightarrow> encodable (Data e) \<Longrightarrow>
   net (sent w) (newRequest (options l) (JSON e)) = None \<Longrightarrow>
   log src net e w =
     Return None
       (if Local (options l)
        then writeLocalLog e (w\<lparr>sent := sent w @ [newRequest (options l) (JSON e)]\<rparr>)
        else w\<lparr>sent := sent w @ [newRequest (options l) (JSON e)]\<rparr>)"
  by (simp add: log_encodable postLog_delivered)

lemma log_failed_part_000:
  "logr w = Some l \<Longrightarrow> Host (options l) \<noteq> [] \<Longrightarrow> encodable (Data e) \<Longrightarrow>
   net (sent w) (newRequest (options l) (JSON e)) = Some er \<Longrightarrow>
   log part_000 net e w =
     Return (Some er)
       (writeLocalLog e
         (writeLocalLog
            \<lparr>Severity = warningSeverity, Tags = [System (options l), ''logging''],
             Message = ''Failed while sending log entry request: '' @ error_Error er,
             Data = GoNil\<rparr>
            (w\<lparr>sent := sent w @ [newRequest (options l) (JSON e)]\<rparr>)))"
  by (simp add: log_encodable postLog_failed_part_000)

lemma log_failed_logger_go:
  "logr w = Some l \<Longrightarrow> Host (options l) \<noteq> [] \<Longrightarrow> encodable (Data e) \<Longrightarrow>
   net (sent w) (newRequest (options l) (JSON e)) = Some er \<Longrightarrow>
   log logger_go net e w =
     Return (Some er) (writeLocalLog e (w\<lparr>sent := sent w @ [newRequest (options l) (JSON e)]\<rparr>))"
  by (simp add: log_encodable postLog_failed_logger_go)

lemma log_unencodable:
  "logr w = Some l \<Longrightarrow> \<not> encodable (Data e) \<Longrightarrow>
   log src net e w =
     (case log src net
             \<lparr>Severity = errorSeverity, Tags = [System (options l), ''logging''],
              Message = couldNotPost,
              Data = GoString []\<rparr>
             (writeLocalLog e w) of
        Return err w1 \<Rightarrow> Return None w1
      | Exit s w1 \<Rightarrow> Exit s w1
      | Panic w1 \<Rightarrow> Panic w1)"
  apply (subst log.simps)
  apply (simp add: json_Marshal_def)
  apply (subst Error.simps)
  apply (simp add: newEntry_Some logTags_def split: run.splits)
  done

lemma log_encodable_Return:
  assumes "logr w = Some l" and "encodable (Data e)"
  shows "\<exists>r w' ls. log src net e w = Return r w' \<and> logr w' = logr w \<and> stderr w' = stderr w
          \<and> sent w' = sent w @ (if Host (options l) = [] then [] else [newRequest (options l) (JSON e)])
          \<and> stdout w' = stdout w @ ls
          \<and> (\<forall>x\<in>set ls. lineSeverity x = Severity e \<or> lineSeverity x = warningSeverity)"
proof (cases "Host (options l) = []")
  case True
  with assms show ?thesis by (simp add: log_no_host printed_def)
next
  case False
  show ?thesis
  proof (cases "net (sent w) (newRequest (options l) (JSON e))")
    case None
    with assms False show ?thesis by (simp add: log_delivered printed_def)
  next
    case (Some er)
    with assms False show ?thesis
      by (cases src) (simp_all add: log_failed_part_000 log_failed_logger_go printed_def)
  qed
qed

lemma log_unencodable_Return:
  assumes "logr w = Some l" and "\<not> encodable (Data e)"
  shows "\<exists>r w' ls.
           log src net e w = Return None w'
         \<and> log src net
               \<lparr>Severity = errorSeverity, Tags = [System (options l), ''logging''],
                Message = couldNotPost, Data = GoString []\<rparr>
               (writeLocalLog e w) = Return r w'
         \<and> logr w' = logr w \<and> stderr w' = stderr w
         \<and> sent w' = sent w @
               (if Host (options l) = [] then []
                else [newRequest (options l)
                        (JSON \<lparr>Severity = errorSeverity, Tags = [System (options l), ''logging''],
                               Message = couldNotPost, Data = GoString []\<rparr>)])
         \<and> stdout w' = stdout w @ printed e # ls
         \<and> (\<forall>x\<in>set ls. lineSeverity x = errorSeverity \<or> lineSeverity x = warningSeverity)"
proof -
  let ?e2 = "\<lparr>Severity = errorSeverity, Tags = [System (options l), ''logging''],
              Message = couldNotPost, Data = GoString []\<rparr>"
  have init: "logr (writeLocalLog e w) = Some l" using assms by simp
  have enc: "encodable (Data ?e2)" by simp
  from log_encodable_Return [OF init enc, of src net]
  obtain r w' ls where "log src net ?e2 (writeLocalLog e w) = Return r w'"
    and "logr w' = logr (writeLocalLog e w)" and "stderr w' = stderr (writeLocalLog e w)"
    and "sent w' = sent (writeLocalLog e w) @
           (if Host (options l) = [] then [] else [newRequest (options l) (JSON ?e2)])"
    and "stdout w' = stdout (writeLocalLog e w) @ ls"
    and "\<forall>x\<in>set ls. lineSeverity x = Severity ?e2 \<or> lineSeverity x = warningSeverity"
    by blast
  then show ?thesis
    using assms by (simp add: log_unencodable)
qed

lemma log_unencodable_no_host:
  assumes "logr w = Some l" and "Host (options l) = []" and "\<not> encodable (Data e)"
  shows "log src net e w =
           Return None
             (writeLocalLog
                \<lparr>Severity = errorSeverity, Tags = [System (options l), ''logging''],
                 Message = couldNotPost, Data = GoString []\<rparr>
                (writeLocalLog e w))"
proof -
  have init: "logr (writeLocalLog e w) = Some l" using assms by simp
  show ?thesis
    using assms by (simp add: log_unencodable log_no_host [OF init])
qed

lemma log_Return:
  assumes "logr w = Some l"
  shows "\<exists>r w' ls rs. log src net e w = Return r w' \<and> logr w' = logr w \<and> stderr w' = stderr w
          \<and> stdout w' = stdout w @ ls \<and> sent w' = sent w @ rs"
proof (cases "encodable (Data e)")
  case True
  from log_encodable_Return [OF assms True, of src net] show ?thesis by blast
next
  case False
  let ?e2 = "\<lparr>Severity = errorSeverity, Tags = [System (options l), ''logging''],
              Message = couldNotPost,
              Data = GoString []\<rparr>"
  have init: "logr (writeLocalLog e w) = Some l" using assms by simp
  have enc: "encodable (Data ?e2)" by simp
  from log_encodable_Return [OF init enc, of src net]
  obtain r w' ls where "log src net ?e2 (writeLocalLog e w) = Return r w'"
    and "logr w' = logr (writeLocalLog e w)" and "stderr w' = stderr (writeLocalLog e w)"
    and "sent w' = sent (writeLocalLog e w) @
           (if Host (options l) = [] then [] else [newRequest (options l) (JSON ?e2)])"
    and "stdout w' = stdout (writeLocalLog e w) @ ls"
    by blast
  then show ?thesis
    using assms False by (simp add: log_unencodable)
qed

lemma log_prints:
  assumes "logr w = Some l"
  shows "\<exists>r w' ls. log src net e w = Return r w' \<and> logr w' = logr w
          \<and> stdout w' = stdout w @ ls
          \<and> (r \<noteq> None \<or> Local (options l) \<or> \<not> encodable (Data e) \<longrightarrow> printed e \<in> set ls)"
proof (cases "encodable (Data e)")
  case False
  from log_unencodable_Return [OF assms False, of src net] show ?thesis
    by auto
next
  case True
  show ?thesis
  proof (cases "Host (options l) = []")
    case True
    with assms \<open>encodable (Data e)\<close> show ?thesis by (simp add: log_no_host)
  next
    case False
    show ?thesis
    proof (cases "net (sent w) (newRequest (options l) (JSON e))")
      case None
      with assms False True show ?thesis by (simp add: log_delivered)
    next
      case (Some er)
      with assms False True show ?thesis
        by (cases src) (simp_all add: log_failed_part_000 log_failed_logger_go)
    qed
  qed
qed

lemma emitter_eq:
  "emitter sev src net tags message data w =
     (case newEntry sev tags message data w of
        Return e w1 \<Rightarrow>
          (case log src net e w1 of
             Return err w2 \<Rightarrow> Return () w2
           | Exit s w2 \<Rightarrow> Exit s w2
           | Panic w2 \<Rightarrow> Panic w2)
      | Exit s w1 \<Rightarrow> Exit s w1
      | Panic w1 \<Rightarrow> Panic w1)"
  by (cases sev) (simp_all add: Critical_def Debug_def Info_def Warning_def Error.simps)

lemma emitter_initialized:
  "logr w = Some l \<Longrightarrow>
   emitter sev src net tags message data w =
     (case log src net
             \<lparr>Severity = sev, Tags = System (options l) # tags, Message = message, Data = data\<rparr> w of
        Return err w2 \<Rightarrow> Return () w2
      | Exit s w2 \<Rightarrow> Exit s w2
      | Panic w2 \<Rightarrow> Panic w2)"
  by (simp add: emitter_eq newEntry_Some)

lemma Fatal_initialized:
  assumes "logr w = Some l"
  shows "Fatal src net tags message data w =
     (case log src net
             \<lparr>Severity = criticalSeverity, Tags = System (options l) # tags,
              Message = message, Data = data\<rparr> w of
        Return err w2 \<Rightarrow>
          if err = None \<and> \<not> Local (options l)
          then Exit 1 (writeLocalLog
                 \<lparr>Severity = criticalSeverity, Tags = System (options l) # tags,
                  Message = message, Data = data\<rparr> w2)
          else Exit 1 w2
      | Exit s w2 \<Rightarrow> Exit s w2
      | Panic w2 \<Rightarrow> Panic w2)"
proof -
  let ?e = "\<lparr>Severity = criticalSeverity, Tags = System (options l) # tags,
             Message = message, Data = data\<rparr>"
  from log_Return [OF assms, of src net ?e]
  obtain r w' where "log src net ?e w = Return r w'" and "logr w' = logr w"
    by blast
  with assms show ?thesis
    by (simp add: Fatal_def newEntry_Some)
qed

lemma Init_first:
  assumes "logr w = None"
  shows "Init src net opts w =
     Return None
       (if src = part_000 \<and> Host opts = []
        then writeLocalLog
               \<lparr>Severity = warningSeverity, Tags = [System opts, ''logging''],
                Message = ''Host is not set'', Data = GoNil\<rparr>
               (w\<lparr>logr := Some \<lparr>options = opts\<lparr>Timeout := (if Timeout opts <s 1 then 10 else Timeout opts)\<rparr>\<rparr>\<rparr>)
        else w\<lparr>logr := Some \<lparr>options = opts\<lparr>Timeout := (if Timeout opts <s 1 then 10 else Timeout opts)\<rparr>\<rparr>\<rparr>)"
proof (cases src)
  case logger_go
  with assms show ?thesis by (simp add: Init_def Let_def timeout_def)
next
  case part_000
  show ?thesis
  proof (cases "Host opts = []")
    case False
    with assms part_000 show ?thesis by (simp add: Init_def Let_def timeout_def)
  next
    case True
    have W: "Warning part_000 net logTags ''Host is not set'' GoNil (w\<lparr>logr := Some \<lparr>options = c\<rparr>\<rparr>) =
            Return () (writeLocalLog
               \<lparr>Severity = warningSeverity, Tags = [System c, ''logging''],
                Message = ''Host is not set'', Data = GoNil\<rparr> (w\<lparr>logr := Some \<lparr>options = c\<rparr>\<rparr>))"
      if "Host c = []" for c
    proof -
      have l: "logr (w\<lparr>logr := Some \<lparr>options = c\<rparr>\<rparr>) = Some \<lparr>options = c\<rparr>" by simp
      have h: "Host (options \<lparr>options = c\<rparr>) = []" using that by simp
      show ?thesis
        unfolding Warning_def newEntry_Some [OF l] logTags_def
        by (simp add: log_no_host [OF l h])
    qed
    with assms part_000 True show ?thesis
      by (simp add: Init_def Let_def timeout_def W)
  qed
qed


subsection \<open>Calling \<^verbatim>\<open>Init\<close> twice\<close>



subsection \<open>The tags of an entry\<close>

text \<open>
  Claim C2. Once \<^verbatim>\<open>Init\<close> has stored a configuration with the system name \<open>S\<close>,
  the entry that \<^verbatim>\<open>newEntry\<close> builds carries the tags \<open>S # tags\<close>: the system name
  first, then the caller's tags in the order given. Each of \<^verbatim>\<open>Critical\<close>, \<^verbatim>\<open>Debug\<close>,
  \<^verbatim>\<open>Error\<close>, \<^verbatim>\<open>Info\<close> and \<^verbatim>\<open>Warning\<close> hands exactly this entry to \<^verbatim>\<open>log\<close>, and so
  does \<^verbatim>\<open>Fatal\<close>, which also prints it when \<^verbatim>\<open>log\<close> returned no error and the
  configuration does not ask for local lines.
\<close>

theorem tags_system_first:
  assumes "logr w = Some l"
  shows "let e = \<lparr>Severity = sev, Tags = System (options l) # tags,
                  Message = message, Data = data\<rparr>;
             c = \<lparr>Severity = criticalSeverity, Tags = System (options l) # tags,
                  Message = message, Data = data\<rparr>
         in newEntry sev tags message data w = Return e w
          \<and> emitter sev src net tags message data w =
              (case log src net e w of
                 Return err w2 \<Rightarrow> Return () w2
               | Exit s w2 \<Rightarrow> Exit s w2
               | Panic w2 \<Rightarrow> Panic w2)
          \<and> Fatal src net tags message data w =
              (case log src net c w of
                 Return err w2 \<Rightarrow>
                   if err = None \<and> \<not> Local (options l) then Exit 1 (writeLocalLog c w2)
                   else Exit 1 w2
               | Exit s w2 \<Rightarrow> Exit s w2
               | Panic w2 \<Rightarrow> Panic w2)"
  by (simp only: Let_def newEntry_Some [OF assms] emitter_initialized [OF assms]
        Fatal_initialized [OF assms] simp_thms)

theorem tags_system_first_witness:
  "logr (started svc) = Some \<lparr>options = svc\<rparr>
   \<and> newEntry infoSeverity [''startup'', ''boot''] ''ready'' GoNil (started svc) =
       Return \<lparr>Severity = infoSeverity, Tags = [''svc'', ''startup'', ''boot''],
                  Message = ''ready'', Data = GoNil\<rparr>
         (started svc)
   \<and> Info part_000 net_up [''startup'', ''boot''] ''ready'' GoNil (started svc) =
       Return ()
         \<lparr>logr = Some \<lparr>options = svc\<rparr>,
          stdout = [\<lparr>lineSeverity = infoSeverity, lineTags = [''svc'', ''startup'', ''boot''],
                      lineMessage = ''ready''\<rparr>],
          stderr = [],
          sent = []\<rparr>
   \<and> Fatal part_000 net_up [''startup'', ''boot''] ''ready'' GoNil (started svc) =
       Exit 1
         \<lparr>logr = Some \<lparr>options = svc\<rparr>,
          stdout = [\<lparr>lineSeverity = criticalSeverity, lineTags = [''svc'', ''startup'', ''boot''],
                      lineMessage = ''ready''\<rparr>],
          stderr = [],
          sent = []\<rparr>"
  (is "?l \<and> ?c \<and> ?a \<and> ?b")
proof -
  have l: ?l by simp
  have c: ?c by code_simp
  have a: ?a by code_simp
  have b: ?b by code_simp
  from tags_system_first [where w = "started svc" and l = "\<lparr>options = svc\<rparr>" and sev = infoSeverity
         and tags = "[''startup'', ''boot'']" and message = "''ready''" and data = GoNil
         and src = part_000 and net = net_up, OF l]
       l c a b
  show ?thesis by (simp only: simp_thms)
qed

subsection \<open>An empty host\<close>

text \<open>
  Claim C3, as the code has it. While the stored host is the empty string,
  \<^verbatim>\<open>postLog\<close> returns the error \<^verbatim>\<open>Host is not set\<close> and leaves the world as it is: no
  request reaches the client. Every emitter then prints its entry and hands nothing to
  the client; when the data cannot be encoded, the error entry that reports it is
  printed as well. \<^verbatim>\<open>Fatal\<close> prints its entry too, sends nothing and exits. All this
  holds for both files. A first call of \<^verbatim>\<open>Init\<close> with an empty host succeeds and sends
  nothing in both files; the \<^verbatim>\<open>Init\<close> of \<^verbatim>\<open>part_000\<close> prints one warning, tagged with
  the system name and \<^verbatim>\<open>logging\<close>, with the message \<^verbatim>\<open>Host is not set\<close>, and the
  \<^verbatim>\<open>Init\<close> of \<^verbatim>\<open>logger.go\<close>, which ends after storing the configuration, prints
  nothing.
\<close>

theorem empty_host_local_only:
  "(logr w = Some l \<and> Host (options l) = [] \<longrightarrow>
      postLog src net b w = Return (Some (errors_New ''Host is not set'')) w
    \<and> (\<exists>w'. emitter sev src net tags message data w = Return () w'
          \<and> sent w' = sent w
          \<and> stdout w' = stdout w @
               printed \<lparr>Severity = sev, Tags = System (options l) # tags,
                        Message = message, Data = data\<rparr> #
               (if encodable data then []
                else [printed \<lparr>Severity = errorSeverity, Tags = [System (options l), ''logging''],
                               Message = couldNotPost, Data = GoString []\<rparr>]))
    \<and> (\<exists>w' ls. Fatal src net tags message data w = Exit 1 w'
          \<and> sent w' = sent w
          \<and> stdout w' = stdout w @
               printed \<lparr>Severity = criticalSeverity, Tags = System (options l) # tags,
                        Message = message, Data = data\<rparr> # ls))
   \<and> (logr w = None \<and> Host opts = [] \<longrightarrow>
        (\<exists>w1. Init src net opts w = Return None w1
           \<and> sent w1 = sent w
           \<and> stdout w1 = stdout w @
                (case src of
                   part_000 \<Rightarrow>
                     [\<lparr>lineSeverity = warningSeverity, lineTags = [System opts, ''logging''],
                       lineMessage = ''Host is not set''\<rparr>]
                 | logger_go \<Rightarrow> [])))"
proof (intro conjI impI)
  assume "logr w = Some l \<and> Host (options l) = []"
  then show "postLog src net b w = Return (Some (errors_New ''Host is not set'')) w"
    by (simp add: postLog_no_host)
next
  assume a: "logr w = Some l \<and> Host (options l) = []"
  show "\<exists>w'. emitter sev src net tags message data w = Return () w'
          \<and> sent w' = sent w
          \<and> stdout w' = stdout w @
               printed \<lparr>Severity = sev, Tags = System (options l) # tags,
                        Message = message, Data = data\<rparr> #
               (if encodable data then []
                else [printed \<lparr>Severity = errorSeverity, Tags = [System (options l), ''logging''],
                               Message = couldNotPost, Data = GoString []\<rparr>])"
    using a by (simp add: emitter_initialized log_no_host log_unencodable_no_host)
next
  assume a: "logr w = Some l \<and> Host (options l) = []"
  show "\<exists>w' ls. Fatal src net tags message data w = Exit 1 w'
          \<and> sent w' = sent w
          \<and> stdout w' = stdout w @
               printed \<lparr>Severity = criticalSeverity, Tags = System (options l) # tags,
                        Message = message, Data = data\<rparr> # ls"
    using a
    by (cases "encodable data")
       (simp_all add: Fatal_initialized log_no_host log_unencodable_no_host)
next
  assume u: "logr w = None \<and> Host opts = []"
  show "\<exists>w1. Init src net opts w = Return None w1
           \<and> sent w1 = sent w
           \<and> stdout w1 = stdout w @
                (case src of
                   part_000 \<Rightarrow>
                     [\<lparr>lineSeverity = warningSeverity, lineTags = [System opts, ''logging''],
                       lineMessage = ''Host is not set''\<rparr>]
                 | logger_go \<Rightarrow> [])"
    using u by (cases src) (simp_all add: Init_first printed_def)
qed

theorem empty_host_local_only_witness:
  "logr (started svc) = Some \<lparr>options = svc\<rparr>
   \<and> Host (options \<lparr>options = svc\<rparr>) = []
   \<and> logr world0 = None
   \<and> Host svc = []
   \<and> postLog part_000 net_down (JSON \<lparr>Severity = infoSeverity, Tags = [''svc'', ''startup''],
                  Message = ''ready'', Data = GoNil\<rparr>) (started svc) =
       Return (Some (errors_New ''Host is not set'')) (started svc)
   \<and> Init part_000 net_down svc world0 =
       Return None
         \<lparr>logr = Some \<lparr>options = svc\<rparr>,
          stdout = [\<lparr>lineSeverity = warningSeverity, lineTags = [''svc'', ''logging''],
                      lineMessage = ''Host is not set''\<rparr>],
          stderr = [],
          sent = []\<rparr>
   \<and> Init logger_go net_down svc world0 =
       Return None
         \<lparr>logr = Some \<lparr>options = svc\<rparr>,
          stdout = [],
          stderr = [],
          sent = []\<rparr>
   \<and> Info part_000 net_down [''startup''] ''ready'' GoNil
         \<lparr>logr = Some \<lparr>options = svc\<rparr>,
          stdout = [\<lparr>lineSeverity = warningSeverity, lineTags = [''svc'', ''logging''],
                      lineMessage = ''Host is not set''\<rparr>],
          stderr = [],
          sent = []\<rparr> =
       Return ()
         \<lparr>logr = Some \<lparr>options = svc\<rparr>,
          stdout = [\<lparr>lineSeverity = warningSeverity, lineTags = [''svc'', ''logging''],
                      lineMessage = ''Host is not set''\<rparr>,
                    \<lparr>lineSeverity = infoSeverity, lineTags = [''svc'', ''startup''],
                      lineMessage = ''ready''\<rparr>],
          stderr = [],
          sent = []\<rparr>
   \<and> Info logger_go net_down [''startup''] ''ready'' GoNil
         \<lparr>logr = Some \<lparr>options = svc\<rparr>,
          stdout = [],
          stderr = [],
          sent = []\<rparr> =
       Return ()
         \<lparr>logr = Some \<lparr>options = svc\<rparr>,
          stdout = [\<lparr>lineSeverity = infoSeverity, lineTags = [''svc'', ''startup''],
                      lineMessage = ''ready''\<rparr>],
          stderr = [],
          sent = []\<rparr>
   \<and> Fatal logger_go net_down [''startup''] ''ready'' GoChan (started svc) =
       Exit 1
         \<lparr>logr = Some \<lparr>options = svc\<rparr>,
          stdout = [\<lparr>lineSeverity = criticalSeverity, lineTags = [''svc'', ''startup''],
                      lineMessage = ''ready''\<rparr>,
                    \<lparr>lineSeverity = errorSeverity, lineTags = [''svc'', ''logging''],
                      lineMessage = couldNotPost\<rparr>,
                    \<lparr>lineSeverity = criticalSeverity, lineTags = [''svc'', ''startup''],
                      lineMessage = ''ready''\<rparr>],
          stderr = [],
          sent = []\<rparr>"
  (is "?l \<and> ?h \<and> ?u \<and> ?k \<and> ?a \<and> ?b \<and> ?g \<and> ?c \<and> ?i \<and> ?d")
proof -
  have l: ?l by simp
  have h: ?h by (simp add: svc_def)
  have u: ?u by (simp add: world0_def)
  have k: ?k by (simp add: svc_def)
  have a: ?a by code_simp
  have b: ?b by code_simp
  have g: ?g by code_simp
  have c: ?c by code_simp
  have i: ?i by code_simp
  have d: ?d by code_simp
  from empty_host_local_only [where w = "started svc" and l = "\<lparr>options = svc\<rparr>"
         and opts = svc and src = part_000]
       empty_host_local_only [where w = world0 and l = "\<lparr>options = svc\<rparr>"
         and opts = svc and src = part_000]
       empty_host_local_only [where w = world0 and l = "\<lparr>options = svc\<rparr>"
         and opts = svc and src = logger_go]
       l h u k a b g c i d
  show ?thesis by (simp only: simp_thms)
qed

text \<open>
  The claim as the specification words it, that \<^verbatim>\<open>Init\<close> with an empty host emits a
  warning, fails on \<^verbatim>\<open>src/logger.go\<close>: on a process that has just started, with the
  host empty, its \<^verbatim>\<open>Init\<close> returns \<^verbatim>\<open>nil\<close> and has printed and sent nothing.
\<close>

theorem Init_logger_go_prints_no_warning:
  "logr world0 = None
   \<and> Host svc = []
   \<and> Init logger_go net_up svc world0 =
       Return None
         \<lparr>logr = Some \<lparr>options = svc\<rparr>,
          stdout = [],
          stderr = [],
          sent = []\<rparr>"
  (is "?u \<and> ?k \<and> ?a")
proof -
  have u: ?u by (simp add: world0_def)
  have k: ?k by (simp add: svc_def)
  have a: ?a by code_simp
  from u k a show ?thesis by (simp only: simp_thms)
qed

subsection \<open>Failed round trips\<close>

text \<open>
  Claim C4, as the code has it. When the host is set, the entry is encoded and the
  round trip fails with the error \<open>er\<close>, an emitter hands one request to the client and
  prints the entry itself once, as its last line, in both files. Before it, the
  \<^verbatim>\<open>postLog\<close> of \<^verbatim>\<open>part_000\<close> prints one warning, tagged with the system name and
  \<^verbatim>\<open>logging\<close>, whose message carries the text of \<open>er\<close>; the \<^verbatim>\<open>postLog\<close> of
  \<^verbatim>\<open>logger.go\<close> returns the error and prints nothing, so that the entry's line is the
  only one. \<^verbatim>\<open>Fatal\<close> prints the same lines before it exits. The \<^verbatim>\<open>Local\<close> flag plays
  no part, so the statement holds in particular when it is not set.
\<close>

theorem failed_delivery_local_once:
  assumes "logr w = Some l" and "Host (options l) \<noteq> []" and "encodable data"
    and "net (sent w)
           (newRequest (options l)
              (JSON \<lparr>Severity = sev, Tags = System (options l) # tags,
                     Message = message, Data = data\<rparr>)) = Some er"
  shows "let e = \<lparr>Severity = sev, Tags = System (options l) # tags,
                  Message = message, Data = data\<rparr>
         in \<exists>w'. emitter sev src net tags message data w = Return () w'
              \<and> sent w' = sent w @ [newRequest (options l) (JSON e)]
              \<and> stdout w' = stdout w @
                    (case src of
                       part_000 \<Rightarrow>
                         [\<lparr>lineSeverity = warningSeverity,
                           lineTags = [System (options l), ''logging''],
                           lineMessage =
                             ''Failed while sending log entry request: '' @ error_Error er\<rparr>]
                     | logger_go \<Rightarrow> []) @
                    [printed e]
              \<and> (sev = criticalSeverity \<longrightarrow>
                    Fatal src net tags message data w = Exit 1 w')"
proof (cases src)
  case part_000
  with assms show ?thesis
    by (auto simp: emitter_initialized Fatal_initialized log_failed_part_000 printed_def)
next
  case logger_go
  with assms show ?thesis
    by (auto simp: emitter_initialized Fatal_initialized log_failed_logger_go printed_def)
qed

theorem failed_delivery_local_once_witness:
  "logr (started shop) = Some \<lparr>options = shop\<rparr>
   \<and> Host (options \<lparr>options = shop\<rparr>) \<noteq> []
   \<and> encodable (GoString ''x'')
   \<and> net_down (sent (started shop))
        (newRequest (options \<lparr>options = shop\<rparr>)
           (JSON \<lparr>Severity = criticalSeverity, Tags = System (options \<lparr>options = shop\<rparr>) # [''db''],
                  Message = ''down'', Data = GoString ''x''\<rparr>)) =
       Some (TransportError ''timeout'')
   \<and> \<not> Local (options \<lparr>options = shop\<rparr>)
   \<and> Critical part_000 net_down [''db''] ''down'' (GoString ''x'') (started shop) =
       Return ()
         \<lparr>logr = Some \<lparr>options = shop\<rparr>,
          stdout = [\<lparr>lineSeverity = warningSeverity, lineTags = [''shop'', ''logging''],
                      lineMessage = ''Failed while sending log entry request: timeout''\<rparr>,
                    \<lparr>lineSeverity = criticalSeverity, lineTags = [''shop'', ''db''],
                      lineMessage = ''down''\<rparr>],
          stderr = [],
          sent = [\<lparr>uri = ''http://logbook/api'', httpMethod = ''POST'',
               contentType = ''application/json'',
               header = [(''billes-log-token'', ''secret'')],
               body = JSON \<lparr>Severity = criticalSeverity, Tags = [''shop'', ''db''],
                  Message = ''down'', Data = GoString ''x''\<rparr>,
               within = 10000000000\<rparr>]\<rparr>
   \<and> Fatal part_000 net_down [''db''] ''down'' (GoString ''x'') (started shop) =
       Exit 1
         \<lparr>logr = Some \<lparr>options = shop\<rparr>,
          stdout = [\<lparr>lineSeverity = warningSeverity, lineTags = [''shop'', ''logging''],
                      lineMessage = ''Failed while sending log entry request: timeout''\<rparr>,
                    \<lparr>lineSeverity = criticalSeverity, lineTags = [''shop'', ''db''],
                      lineMessage = ''down''\<rparr>],
          stderr = [],
          sent = [\<lparr>uri = ''http://logbook/api'', httpMethod = ''POST'',
               contentType = ''application/json'',
               header = [(''billes-log-token'', ''secret'')],
               body = JSON \<lparr>Severity = criticalSeverity, Tags = [''shop'', ''db''],
                  Message = ''down'', Data = GoString ''x''\<rparr>,
               within = 10000000000\<rparr>]\<rparr>
   \<and> Critical logger_go net_down [''db''] ''down'' (GoString ''x'') (started shop) =
       Return ()
         \<lparr>logr = Some \<lparr>options = shop\<rparr>,
          stdout = [\<lparr>lineSeverity = criticalSeverity, lineTags = [''shop'', ''db''],
                      lineMessage = ''down''\<rparr>],
          stderr = [],
          sent = [\<lparr>uri = ''http://logbook/api'', httpMethod = ''POST'',
               contentType = ''application/json'',
               header = [(''billes-log-token'', ''secret'')],
               body = JSON \<lparr>Severity = criticalSeverity, Tags = [''shop'', ''db''],
                  Message = ''down'', Data = GoString ''x''\<rparr>,
               within = 10000000000\<rparr>]\<rparr>
   \<and> Fatal logger_go net_down [''db''] ''down'' (GoString ''x'') (started shop) =
       Exit 1
         \<lparr>logr = Some \<lparr>options = shop\<rparr>,
          stdout = [\<lparr>lineSeverity = criticalSeverity, lineTags = [''shop'', ''db''],
                      lineMessage = ''down''\<rparr>],
          stderr = [],
          sent = [\<lparr>uri = ''http://logbook/api'', httpMethod = ''POST'',
               contentType = ''application/json'',
               header = [(''billes-log-token'', ''secret'')],
               body = JSON \<lparr>Severity = criticalSeverity, Tags = [''shop'', ''db''],
                  Message = ''down'', Data = GoString ''x''\<rparr>,
               within = 10000000000\<rparr>]\<rparr>"
  (is "?l \<and> ?h \<and> ?e \<and> ?n \<and> ?f \<and> ?a \<and> ?b \<and> ?c \<and> ?d")
proof -
  have l: ?l by simp
  have h: ?h by (simp add: shop_def)
  have e: ?e by simp
  have n: ?n by (simp add: net_down_def)
  have f: ?f by (simp add: shop_def)
  have a: ?a by code_simp
  have b: ?b by code_simp
  have c: ?c by code_simp
  have d: ?d by code_simp
  from failed_delivery_local_once [where w = "started shop" and l = "\<lparr>options = shop\<rparr>"
         and net = net_down and sev = criticalSeverity and tags = "[''db'']"
         and message = "''down''" and data = "GoString ''x''" and src = part_000, OF l h e n]
       failed_delivery_local_once [where w = "started shop" and l = "\<lparr>options = shop\<rparr>"
         and net = net_down and sev = criticalSeverity and tags = "[''db'']"
         and message = "''down''" and data = "GoString ''x''" and src = logger_go, OF l h e n]
       l h e n f a b c d
  show ?thesis by (simp only: simp_thms)
qed

text \<open>
  The claim as the specification words it, that a failed round trip leaves a secondary
  warning line, fails on \<^verbatim>\<open>src/logger.go\<close>: with the host set, the \<^verbatim>\<open>Local\<close> flag not
  set and a network that times out, \<^verbatim>\<open>Error\<close> prints the line of its entry and no
  other.
\<close>

theorem postLog_logger_go_prints_no_warning:
  "logr (started shop) = Some \<lparr>options = shop\<rparr>
   \<and> Host (options \<lparr>options = shop\<rparr>) \<noteq> []
   \<and> \<not> Local (options \<lparr>options = shop\<rparr>)
   \<and> encodable GoNil
   \<and> net_down (sent (started shop))
        (newRequest (options \<lparr>options = shop\<rparr>)
           (JSON \<lparr>Severity = errorSeverity, Tags = [''shop'', ''db''],
                  Message = ''down'', Data = GoNil\<rparr>)) =
       Some (TransportError ''timeout'')
   \<and> Error logger_go net_down [''db''] ''down'' GoNil (started shop) =
       Return ()
         \<lparr>logr = Some \<lparr>options = shop\<rparr>,
          stdout = [\<lparr>lineSeverity = errorSeverity, lineTags = [''shop'', ''db''],
                      lineMessage = ''down''\<rparr>],
          stderr = [],
          sent = [\<lparr>uri = ''http://logbook/api'', httpMethod = ''POST'',
               contentType = ''application/json'',
               header = [(''billes-log-token'', ''secret'')],
               body = JSON \<lparr>Severity = errorSeverity, Tags = [''shop'', ''db''],
                  Message = ''down'', Data = GoNil\<rparr>,
               within = 10000000000\<rparr>]\<rparr>"
  (is "?l \<and> ?h \<and> ?f \<and> ?e \<and> ?n \<and> ?a")
proof -
  have l: ?l by simp
  have h: ?h by (simp add: shop_def)
  have f: ?f by (simp add: shop_def)
  have e: ?e by simp
  have n: ?n by (simp add: net_down_def)
  have a: ?a by code_simp
  from l h f e n a show ?thesis by (simp only: simp_thms)
qed

subsection \<open>Data that cannot be encoded\<close>



subsection \<open>\<^verbatim>\<open>Fatal\<close>\<close>

text \<open>
  Claim C6. \<^verbatim>\<open>Fatal\<close> always ends the process with status 1, in every world and
  whatever the network answers. With a configuration stored, so that \<^verbatim>\<open>newEntry\<close>
  builds the critical entry, the line of that entry is among the lines the call has
  printed by then. When \<^verbatim>\<open>log\<close> returned \<^verbatim>\<open>nil\<close> and the \<^verbatim>\<open>Local\<close> flag is not
  set, \<^verbatim>\<open>Fatal\<close> prints the line itself, after \<^verbatim>\<open>log\<close>. (Before \<^verbatim>\<open>Init\<close> no entry is
  built: that is claim C9.)
\<close>

theorem Fatal_exits_with_local_line:
  "(\<exists>w'. Fatal src net tags message data w = Exit 1 w')
   \<and> (logr w = Some l \<longrightarrow>
       (let e = \<lparr>Severity = criticalSeverity, Tags = System (options l) # tags,
                 Message = message, Data = data\<rparr>
        in \<exists>w' ls. Fatal src net tags message data w = Exit 1 w'
             \<and> stdout w' = stdout w @ ls
             \<and> printed e \<in> set ls
             \<and> (\<forall>w2. log src net e w = Return None w2 \<and> \<not> Local (options l) \<longrightarrow>
                   w' = writeLocalLog e w2)))"
proof (intro conjI impI)
  show "\<exists>w'. Fatal src net tags message data w = Exit 1 w'"
  proof (cases "logr w")
    case None
    then show ?thesis by (simp add: Fatal_def newEntry_None)
  next
    case (Some l0)
    from log_Return [OF Some, of src net
           "\<lparr>Severity = criticalSeverity, Tags = System (options l0) # tags,
             Message = message, Data = data\<rparr>"]
    obtain r w2 where
      "log src net \<lparr>Severity = criticalSeverity, Tags = System (options l0) # tags,
                     Message = message, Data = data\<rparr> w = Return r w2"
      by blast
    with Some show ?thesis
      by (simp add: Fatal_initialized)
  qed
next
  assume init: "logr w = Some l"
  let ?e = "\<lparr>Severity = criticalSeverity, Tags = System (options l) # tags,
             Message = message, Data = data\<rparr>"
  from log_prints [OF init, of src net ?e]
  obtain r w2 ls where a: "log src net ?e w = Return r w2" and b: "logr w2 = logr w"
    and c: "stdout w2 = stdout w @ ls"
    and d: "r \<noteq> None \<or> Local (options l) \<or> \<not> encodable (Data ?e) \<longrightarrow> printed ?e \<in> set ls"
    by blast
  have "\<exists>w' ls. Fatal src net tags message data w = Exit 1 w'
          \<and> stdout w' = stdout w @ ls
          \<and> printed ?e \<in> set ls
          \<and> (\<forall>w2. log src net ?e w = Return None w2 \<and> \<not> Local (options l) \<longrightarrow>
                w' = writeLocalLog ?e w2)"
  proof (cases "r = None \<and> \<not> Local (options l)")
    case True
    with a c init show ?thesis
      by (simp add: Fatal_initialized)
  next
    case False
    with a c d init show ?thesis
      by (auto simp: Fatal_initialized)
  qed
  then show "let e = ?e
        in \<exists>w' ls. Fatal src net tags message data w = Exit 1 w'
             \<and> stdout w' = stdout w @ ls
             \<and> printed e \<in> set ls
             \<and> (\<forall>w2. log src net e w = Return None w2 \<and> \<not> Local (options l) \<longrightarrow>
                   w' = writeLocalLog e w2)"
    unfolding Let_def .
qed

theorem Fatal_exits_with_local_line_witness:
  "logr (started shop) = Some \<lparr>options = shop\<rparr>
   \<and> \<not> Local (options \<lparr>options = shop\<rparr>)
   \<and> log logger_go net_up \<lparr>Severity = criticalSeverity, Tags = [''shop'', ''db''],
                  Message = ''down'', Data = GoNil\<rparr>
         (started shop) =
       Return None
         \<lparr>logr = Some \<lparr>options = shop\<rparr>,
          stdout = [],
          stderr = [],
          sent = [\<lparr>uri = ''http://logbook/api'', httpMethod = ''POST'',
               contentType = ''application/json'',
               header = [(''billes-log-token'', ''secret'')],
               body = JSON \<lparr>Severity = criticalSeverity, Tags = [''shop'', ''db''],
                  Message = ''down'', Data = GoNil\<rparr>,
               within = 10000000000\<rparr>]\<rparr>
   \<and> Fatal logger_go net_up [''db''] ''down'' GoNil (started shop) =
       Exit 1
         \<lparr>logr = Some \<lparr>options = shop\<rparr>,
          stdout = [\<lparr>lineSeverity = criticalSeverity, lineTags = [''shop'', ''db''],
                      lineMessage = ''down''\<rparr>],
          stderr = [],
          sent = [\<lparr>uri = ''http://logbook/api'', httpMethod = ''POST'',
               contentType = ''application/json'',
               header = [(''billes-log-token'', ''secret'')],
               body = JSON \<lparr>Severity = criticalSeverity, Tags = [''shop'', ''db''],
                  Message = ''down'', Data = GoNil\<rparr>,
               within = 10000000000\<rparr>]\<rparr>
   \<and> Fatal part_000 net_down [''db''] ''down'' GoNil (started shop) =
       Exit 1
         \<lparr>logr = Some \<lparr>options = shop\<rparr>,
          stdout = [\<lparr>lineSeverity = warningSeverity, lineTags = [''shop'', ''logging''],
                      lineMessage = ''Failed while sending log entry request: timeout''\<rparr>,
                    \<lparr>lineSeverity = criticalSeverity, lineTags = [''shop'', ''db''],
                      lineMessage = ''down''\<rparr>],
          stderr = [],
          sent = [\<lparr>uri = ''http://logbook/api'', httpMethod = ''POST'',
               contentType = ''application/json'',
               header = [(''billes-log-token'', ''secret'')],
               body = JSON \<lparr>Severity = criticalSeverity, Tags = [''shop'', ''db''],
                  Message = ''down'', Data = GoNil\<rparr>,
               within = 10000000000\<rparr>]\<rparr>
   \<and> Fatal part_000 net_down [''db''] ''down'' GoNil world0 =
       Exit 1
         \<lparr>logr = None,
          stdout = [],
          stderr = [''You need to instantiate the logger first''],
          sent = []\<rparr>"
  (is "?l \<and> ?f \<and> ?a \<and> ?b \<and> ?c \<and> ?d")
proof -
  have l: ?l by simp
  have f: ?f by (simp add: shop_def)
  have a: ?a by code_simp
  have b: ?b by code_simp
  have c: ?c by code_simp
  have d: ?d by code_simp
  from Fatal_exits_with_local_line [where w = "started shop" and l = "\<lparr>options = shop\<rparr>" and src = logger_go
         and net = net_up and tags = "[''db'']" and message = "''down''" and data = GoNil]
       l f a b c d
  show ?thesis by (simp only: simp_thms)
qed

subsection \<open>Delivered entries\<close>

text \<open>
  Claim C7. When the entry is encoded and the round trip succeeds, an emitter other
  than \<^verbatim>\<open>Fatal\<close> hands one request to the client and prints the entry once if the
  configuration's \<^verbatim>\<open>Local\<close> flag is set, and prints nothing if it is not.
\<close>

theorem delivered_local_by_flag:
  assumes "logr w = Some l" and "Host (options l) \<noteq> []" and "encodable data"
    and "net (sent w)
           (newRequest (options l)
              (JSON \<lparr>Severity = sev, Tags = System (options l) # tags,
                     Message = message, Data = data\<rparr>)) = None"
  shows "let e = \<lparr>Severity = sev, Tags = System (options l) # tags,
                  Message = message, Data = data\<rparr>
         in \<exists>w'. emitter sev src net tags message data w = Return () w'
              \<and> sent w' = sent w @ [newRequest (options l) (JSON e)]
              \<and> (Local (options l) \<longrightarrow> stdout w' = stdout w @ [printed e])
              \<and> (\<not> Local (options l) \<longrightarrow> stdout w' = stdout w)"
  using assms by (simp add: emitter_initialized log_delivered)

theorem delivered_local_by_flag_witness:
  "logr (started shop) = Some \<lparr>options = shop\<rparr>
   \<and> Host (options \<lparr>options = shop\<rparr>) \<noteq> []
   \<and> encodable (GoInt 7)
   \<and> net_up (sent (started shop))
        (newRequest (options \<lparr>options = shop\<rparr>)
           (JSON \<lparr>Severity = debugSeverity, Tags = System (options \<lparr>options = shop\<rparr>) # [''cart''],
                  Message = ''added'', Data = GoInt 7\<rparr>)) = None
   \<and> \<not> Local (options \<lparr>options = shop\<rparr>)
   \<and> logr (started (shop\<lparr>Local := True\<rparr>)) = Some \<lparr>options = shop\<lparr>Local := True\<rparr>\<rparr>
   \<and> Host (options \<lparr>options = shop\<lparr>Local := True\<rparr>\<rparr>) \<noteq> []
   \<and> net_up (sent (started (shop\<lparr>Local := True\<rparr>)))
        (newRequest (options \<lparr>options = shop\<lparr>Local := True\<rparr>\<rparr>)
           (JSON \<lparr>Severity = debugSeverity, Tags = System (options \<lparr>options = shop\<lparr>Local := True\<rparr>\<rparr>) # [''cart''],
                  Message = ''added'', Data = GoInt 7\<rparr>)) = None
   \<and> Local (options \<lparr>options = shop\<lparr>Local := True\<rparr>\<rparr>)
   \<and> Debug logger_go net_up [''cart''] ''added'' (GoInt 7) (started shop) =
       Return ()
         \<lparr>logr = Some \<lparr>options = shop\<rparr>,
          stdout = [],
          stderr = [],
          sent = [\<lparr>uri = ''http://logbook/api'', httpMethod = ''POST'',
               contentType = ''application/json'',
               header = [(''billes-log-token'', ''secret'')],
               body = JSON \<lparr>Severity = debugSeverity, Tags = [''shop'', ''cart''],
                  Message = ''added'', Data = GoInt 7\<rparr>,
               within = 10000000000\<rparr>]\<rparr>
   \<and> Debug part_000 net_up [''cart''] ''added'' (GoInt 7) (started (shop\<lparr>Local := True\<rparr>)) =
       Return ()
         \<lparr>logr = Some \<lparr>options = shop\<lparr>Local := True\<rparr>\<rparr>,
          stdout = [\<lparr>lineSeverity = debugSeverity, lineTags = [''shop'', ''cart''],
                      lineMessage = ''added''\<rparr>],
          stderr = [],
          sent = [\<lparr>uri = ''http://logbook/api'', httpMethod = ''POST'',
               contentType = ''application/json'',
               header = [(''billes-log-token'', ''secret'')],
               body = JSON \<lparr>Severity = debugSeverity, Tags = [''shop'', ''cart''],
                  Message = ''added'', Data = GoInt 7\<rparr>,
               within = 10000000000\<rparr>]\<rparr>"
  (is "?l \<and> ?h \<and> ?e \<and> ?n \<and> ?f \<and> ?m \<and> ?i \<and> ?o \<and> ?g \<and> ?a \<and> ?b")
proof -
  have l: ?l by simp
  have h: ?h by (simp add: shop_def)
  have e: ?e by simp
  have n: ?n by (simp add: net_up_def)
  have f: ?f by (simp add: shop_def)
  have m: ?m by simp
  have i: ?i by (simp add: shop_def)
  have o: ?o by (simp add: net_up_def)
  have g: ?g by simp
  have a: ?a by code_simp
  have b: ?b by code_simp
  from delivered_local_by_flag [where w = "started shop" and l = "\<lparr>options = shop\<rparr>" and net = net_up
         and sev = debugSeverity and tags = "[''cart'']" and message = "''added''"
         and data = "GoInt 7" and src = logger_go, OF l h e n]
       delivered_local_by_flag [where w = "started (shop\<lparr>Local := True\<rparr>)"
         and l = "\<lparr>options = shop\<lparr>Local := True\<rparr>\<rparr>" and net = net_up
         and sev = debugSeverity and tags = "[''cart'']" and message = "''added''"
         and data = "GoInt 7" and src = part_000, OF m i e o]
       l h e n f m i o g a b
  show ?thesis by (simp only: simp_thms)
qed

subsection \<open>The default of the timeout\<close>

text \<open>
  Claim C8. A first call of \<^verbatim>\<open>Init\<close> stores the configuration it is given, with the
  timeout 10 when the given timeout is unset (0, the zero value of the field) or less
  than 1, and with the given timeout when that is at least 1. The timeout is read as
  the signed integer it is in Go.
\<close>

theorem Init_timeout_default:
  assumes "logr w = None"
  shows "\<exists>w1. Init src net opts w = Return None w1
          \<and> (Timeout opts = 0 \<longrightarrow> logr w1 = Some \<lparr>options = opts\<lparr>Timeout := 10\<rparr>\<rparr>)
          \<and> (sint (Timeout opts) < 1 \<longrightarrow> logr w1 = Some \<lparr>options = opts\<lparr>Timeout := 10\<rparr>\<rparr>)
          \<and> (1 \<le> sint (Timeout opts) \<longrightarrow> logr w1 = Some \<lparr>options = opts\<rparr>)"
  using Init_first [OF assms, of src net opts]
  by (auto simp: word_sless_alt)

theorem Init_timeout_default_witness:
  "logr world0 = None
   \<and> Timeout (shop\<lparr>Timeout := 0\<rparr>) = 0
   \<and> sint (Timeout (shop\<lparr>Timeout := - 3\<rparr>)) < 1
   \<and> 1 \<le> sint (Timeout (shop\<lparr>Timeout := 45\<rparr>))
   \<and> Init part_000 net_up (shop\<lparr>Timeout := 0\<rparr>) world0 =
       Return None (started (shop\<lparr>Timeout := 10\<rparr>))
   \<and> Init logger_go net_down (shop\<lparr>Timeout := - 3\<rparr>) world0 =
       Return None (started (shop\<lparr>Timeout := 10\<rparr>))
   \<and> Init part_000 net_down (shop\<lparr>Timeout := 45\<rparr>) world0 =
       Return None (started (shop\<lparr>Timeout := 45\<rparr>))"
  (is "?u \<and> ?z \<and> ?n \<and> ?p \<and> ?a \<and> ?b \<and> ?c")
proof -
  have u: ?u by (simp add: world0_def)
  have z: ?z by simp
  have n: ?n by simp
  have p: ?p by simp
  have a: ?a by code_simp
  have b: ?b by code_simp
  have c: ?c by code_simp
  from Init_timeout_default [where w = world0 and src = part_000 and net = net_up
         and opts = "shop\<lparr>Timeout := 0\<rparr>", OF u]
       Init_timeout_default [where w = world0 and src = logger_go and net = net_down
         and opts = "shop\<lparr>Timeout := - 3\<rparr>", OF u]
       Init_timeout_default [where w = world0 and src = part_000 and net = net_down
         and opts = "shop\<lparr>Timeout := 45\<rparr>", OF u]
       u z n p a b c
  show ?thesis by (simp only: simp_thms)
qed

subsection \<open>Calls before \<^verbatim>\<open>Init\<close>\<close>

text \<open>
  Claim C9. While \<^verbatim>\<open>logr\<close> is \<^verbatim>\<open>nil\<close>, that is before a call of \<^verbatim>\<open>Init\<close> has
  succeeded, each of \<^verbatim>\<open>Critical\<close>, \<^verbatim>\<open>Debug\<close>, \<^verbatim>\<open>Error\<close>, \<^verbatim>\<open>Info\<close>, \<^verbatim>\<open>Warning\<close> and
  \<^verbatim>\<open>Fatal\<close> ends the process at once, with status 1: \<^verbatim>\<open>newEntry\<close> calls
  \<^verbatim>\<open>coreLog.Fatal\<close>. The call does not return, nothing is posted and nothing is
  printed on standard output; the standard logger's message is the only trace.
\<close>

theorem not_initialized_halts:
  assumes "logr w = None"
  shows "emitter sev src net tags message data w =
           Exit 1 (w\<lparr>stderr := stderr w @ [''You need to instantiate the logger first'']\<rparr>)
       \<and> Fatal src net tags message data w =
           Exit 1 (w\<lparr>stderr := stderr w @ [''You need to instantiate the logger first'']\<rparr>)"
  using assms by (simp add: emitter_eq Fatal_def newEntry_None)

theorem not_initialized_halts_witness:
  "logr world0 = None
   \<and> Info part_000 net_up [''startup''] ''ready'' GoNil world0 =
       Exit 1
         \<lparr>logr = None,
          stdout = [],
          stderr = [''You need to instantiate the logger first''],
          sent = []\<rparr>
   \<and> Fatal part_000 net_up [''startup''] ''ready'' GoNil world0 =
       Exit 1
         \<lparr>logr = None,
          stdout = [],
          stderr = [''You need to instantiate the logger first''],
          sent = []\<rparr>"
  (is "?u \<and> ?a \<and> ?b")
proof -
  have u: ?u by (simp add: world0_def)
  have a: ?a by code_simp
  have b: ?b by code_simp
  from not_initialized_halts [where w = world0 and sev = infoSeverity and src = part_000 and net = net_up
         and tags = "[''startup'']" and message = "''ready''" and data = GoNil, OF u]
       u a b
  show ?thesis by (simp only: simp_thms)
qed

subsection \<open>\<^verbatim>\<open>Fatal\<close> on data that cannot be encoded\<close>

text \<open>
  Claim C10. When the \<^verbatim>\<open>Local\<close> flag is not set and the data cannot be encoded,
  \<^verbatim>\<open>Fatal\<close> prints the line of its entry twice: \<^verbatim>\<open>log\<close> prints it first, before
  reporting the failure, and returns \<^verbatim>\<open>nil\<close>; so \<^verbatim>\<open>Fatal\<close> prints it again. The
  lines between the two are those of the report, none of them the entry's.
\<close>

theorem Fatal_unencodable_twice:
  assumes "logr w = Some l" and "\<not> Local (options l)" and "\<not> encodable data"
  shows "let e = \<lparr>Severity = criticalSeverity, Tags = System (options l) # tags,
                  Message = message, Data = data\<rparr>
         in \<exists>w2 ls.
              log src net e w = Return None w2
            \<and> stdout w2 = stdout w @ [printed e] @ ls
            \<and> printed e \<notin> set ls
            \<and> Fatal src net tags message data w = Exit 1 (writeLocalLog e w2)
            \<and> stdout (writeLocalLog e w2) = stdout w @ [printed e] @ ls @ [printed e]"
proof -
  let ?e = "\<lparr>Severity = criticalSeverity, Tags = System (options l) # tags,
             Message = message, Data = data\<rparr>"
  have u: "\<not> encodable (Data ?e)" using assms(3) by simp
  from log_unencodable_Return [OF assms(1) u, of src net]
  obtain w2 ls where a: "log src net ?e w = Return None w2"
    and c: "stdout w2 = stdout w @ printed ?e # ls"
    and d: "\<forall>x\<in>set ls. lineSeverity x = errorSeverity \<or> lineSeverity x = warningSeverity"
    by blast
  have "printed ?e \<notin> set ls"
  proof
    assume "printed ?e \<in> set ls"
    with d have "lineSeverity (printed ?e) = errorSeverity \<or> lineSeverity (printed ?e) = warningSeverity"
      by blast
    then show False by (simp add: printed_def)
  qed
  with a c assms show ?thesis
    by (simp add: Fatal_initialized)
qed

theorem Fatal_unencodable_twice_witness:
  "logr (started shop) = Some \<lparr>options = shop\<rparr>
   \<and> \<not> Local (options \<lparr>options = shop\<rparr>)
   \<and> \<not> encodable GoFunc
   \<and> Fatal part_000 net_down [''db''] ''down'' GoFunc (started shop) =
       Exit 1
         \<lparr>logr = Some \<lparr>options = shop\<rparr>,
          stdout = [\<lparr>lineSeverity = criticalSeverity, lineTags = [''shop'', ''db''],
                      lineMessage = ''down''\<rparr>,
                    \<lparr>lineSeverity = warningSeverity, lineTags = [''shop'', ''logging''],
                      lineMessage = ''Failed while sending log entry request: timeout''\<rparr>,
                    \<lparr>lineSeverity = errorSeverity, lineTags = [''shop'', ''logging''],
                      lineMessage = couldNotPost\<rparr>,
                    \<lparr>lineSeverity = criticalSeverity, lineTags = [''shop'', ''db''],
                      lineMessage = ''down''\<rparr>],
          stderr = [],
          sent = [\<lparr>uri = ''http://logbook/api'', httpMethod = ''POST'',
               contentType = ''application/json'',
               header = [(''billes-log-token'', ''secret'')],
               body = JSON \<lparr>Severity = errorSeverity, Tags = [''shop'', ''logging''],
                  Message = couldNotPost, Data = GoString []\<rparr>,
               within = 10000000000\<rparr>]\<rparr>
   \<and> Fatal logger_go net_up [''db''] ''down'' GoFunc (started shop) =
       Exit 1
         \<lparr>logr = Some \<lparr>options = shop\<rparr>,
          stdout = [\<lparr>lineSeverity = criticalSeverity, lineTags = [''shop'', ''db''],
                      lineMessage = ''down''\<rparr>,
                    \<lparr>lineSeverity = criticalSeverity, lineTags = [''shop'', ''db''],
                      lineMessage = ''down''\<rparr>],
          stderr = [],
          sent = [\<lparr>uri = ''http://logbook/api'', httpMethod = ''POST'',
               contentType = ''application/json'',
               header = [(''billes-log-token'', ''secret'')],
               body = JSON \<lparr>Severity = errorSeverity, Tags = [''shop'', ''logging''],
                  Message = couldNotPost, Data = GoString []\<rparr>,
               within = 10000000000\<rparr>]\<rparr>"
  (is "?l \<and> ?f \<and> ?u \<and> ?a \<and> ?b")
proof -
  have l: ?l by simp
  have f: ?f by (simp add: shop_def)
  have u: ?u by simp
  have a: ?a by code_simp
  have b: ?b by code_simp
  from Fatal_unencodable_twice [where w = "started shop" and l = "\<lparr>options = shop\<rparr>" and src = part_000
         and net = net_down and tags = "[''db'']" and message = "''down''" and data = GoFunc,
         OF l f u]
       l f u a b
  show ?thesis by (simp only: simp_thms)
qed

end
